theory Spec2Isabelle
  imports Complex_Main "HOL-Library.Monad_Syntax"
begin

section \<open>Scalar policy and constants\<close>

text \<open>
  The library computes over one scalar type \<^verbatim>\<open>real\<close>, which is \<^verbatim>\<open>float\<close>, or
  \<^verbatim>\<open>double\<close> when \<^verbatim>\<open>DOUBLE_PRECISION\<close> is defined. The embedding reads a scalar as a
  real number: sums, differences and products are exact, there is no rounding, no
  overflow and no NaN. The build switch is the parameter \<open>pr\<close> of every function that
  reads \<^verbatim>\<open>Constants::Epsilon\<close>. Where a statement is about the digits a computation
  ends with, the operations are taken with the rounding of the scalar type instead
  (section \<open>Rounded arithmetic\<close>).
\<close>

datatype precision = SinglePrecision | DoublePrecision

definition Epsilon :: "precision \<Rightarrow> real" where
  "Epsilon pr = (case pr of DoublePrecision \<Rightarrow> 1 / 10 ^ 12 | SinglePrecision \<Rightarrow> 1 / 10 ^ 6)"

text \<open>
  Scalar division \<^verbatim>\<open>a / b\<close>. A machine quotient by zero is an infinity or a NaN, which
  is no real number, so the quotient of the model is \<open>None\<close> there (HOL's own \<open>a / 0\<close>
  would be \<open>0\<close>, which the machine never answers).
\<close>

definition fdiv :: "real \<Rightarrow> real \<Rightarrow> real option" where
  "fdiv a b = (if b = 0 then None else Some (a / b))"

section \<open>MathTools\<close>


section \<open>Vec2\<close>

record Vec2 =
  Vec2_x :: real
  Vec2_y :: real

text \<open>\<^verbatim>\<open>operator+\<close>, \<^verbatim>\<open>operator-\<close>, \<^verbatim>\<open>operator*(real)\<close> and the free \<^verbatim>\<open>operator*(real, Vec2)\<close>.\<close>

definition Vec2_add :: "Vec2 \<Rightarrow> Vec2 \<Rightarrow> Vec2" where
  "Vec2_add this other =
     \<lparr>Vec2_x = Vec2_x this + Vec2_x other, Vec2_y = Vec2_y this + Vec2_y other\<rparr>"

definition Vec2_sub :: "Vec2 \<Rightarrow> Vec2 \<Rightarrow> Vec2" where
  "Vec2_sub this other =
     \<lparr>Vec2_x = Vec2_x this - Vec2_x other, Vec2_y = Vec2_y this - Vec2_y other\<rparr>"

definition Vec2_mul :: "Vec2 \<Rightarrow> real \<Rightarrow> Vec2" where
  "Vec2_mul this s = \<lparr>Vec2_x = Vec2_x this * s, Vec2_y = Vec2_y this * s\<rparr>"

definition real_mul_Vec2 :: "real \<Rightarrow> Vec2 \<Rightarrow> Vec2" where
  "real_mul_Vec2 scalar v = Vec2_mul v scalar"

text \<open>\<^verbatim>\<open>operator+=\<close>: the two fields are assigned in turn; the result is the updated object.\<close>

definition Vec2_add_assign :: "Vec2 \<Rightarrow> Vec2 \<Rightarrow> Vec2" where
  "Vec2_add_assign this other =
     (let s1 = this\<lparr>Vec2_x := Vec2_x this + Vec2_x other\<rparr>;
          s2 = s1\<lparr>Vec2_y := Vec2_y s1 + Vec2_y other\<rparr>
      in s2)"

text \<open>\<^verbatim>\<open>length\<close>, \<^verbatim>\<open>lengthSquared\<close>, \<^verbatim>\<open>dot\<close> and \<^verbatim>\<open>rotate\<close>.\<close>

definition Vec2_length :: "Vec2 \<Rightarrow> real" where
  "Vec2_length this = sqrt (Vec2_x this * Vec2_x this + Vec2_y this * Vec2_y this)"

definition Vec2_lengthSquared :: "Vec2 \<Rightarrow> real" where
  "Vec2_lengthSquared this = Vec2_x this * Vec2_x this + Vec2_y this * Vec2_y this"

definition Vec2_dot :: "Vec2 \<Rightarrow> Vec2 \<Rightarrow> real" where
  "Vec2_dot this other = Vec2_x this * Vec2_x other + Vec2_y this * Vec2_y other"

definition Vec2_rotate :: "Vec2 \<Rightarrow> real \<Rightarrow> Vec2" where
  "Vec2_rotate this rads =
     \<lparr>Vec2_x = Vec2_x this * cos rads - Vec2_y this * sin rads,
      Vec2_y = Vec2_x this * sin rads + Vec2_y this * cos rads\<rparr>"

text \<open>
  \<^verbatim>\<open>normalize\<close> returns a new vector; \<^verbatim>\<open>normalizeSelf\<close> assigns the fields of the
  object one after the other (\<^verbatim>\<open>x = y = 0\<close> writes \<open>y\<close> first) and the model returns
  the object as it is left. Both divide by \<open>len\<close>, so both are in the option monad.
\<close>

definition Vec2_normalize :: "precision \<Rightarrow> Vec2 \<Rightarrow> Vec2 option" where
  "Vec2_normalize pr this =
     (let len = Vec2_length this
      in if len < Epsilon pr then Some \<lparr>Vec2_x = 0, Vec2_y = 0\<rparr>
         else do {
           qx \<leftarrow> fdiv (Vec2_x this) len;
           qy \<leftarrow> fdiv (Vec2_y this) len;
           Some \<lparr>Vec2_x = qx, Vec2_y = qy\<rparr>
         })"

definition Vec2_normalizeSelf :: "precision \<Rightarrow> Vec2 \<Rightarrow> Vec2 option" where
  "Vec2_normalizeSelf pr this =
     (let len = Vec2_length this
      in if len < Epsilon pr
         then (let s1 = this\<lparr>Vec2_y := 0\<rparr>; s2 = s1\<lparr>Vec2_x := Vec2_y s1\<rparr> in Some s2)
         else do {
           qx \<leftarrow> fdiv (Vec2_x this) len;
           let s1 = this\<lparr>Vec2_x := qx\<rparr>;
           qy \<leftarrow> fdiv (Vec2_y s1) len;
           Some (s1\<lparr>Vec2_y := qy\<rparr>)
         })"

definition Vec2_project :: "precision \<Rightarrow> Vec2 \<Rightarrow> Vec2 \<Rightarrow> Vec2 option" where
  "Vec2_project pr this other =
     (let len2 = Vec2_lengthSquared other
      in if len2 < Epsilon pr then Some \<lparr>Vec2_x = 0, Vec2_y = 0\<rparr>
         else do {
           q \<leftarrow> fdiv (Vec2_dot this other) len2;
           Some (real_mul_Vec2 q other)
         })"

definition Vec2_reflect :: "precision \<Rightarrow> Vec2 \<Rightarrow> Vec2 \<Rightarrow> Vec2 option" where
  "Vec2_reflect pr this normal =
     do {
       n \<leftarrow> Vec2_normalize pr normal;
       Some (Vec2_sub this (real_mul_Vec2 (2 * Vec2_dot this n) n))
     }"

definition Vec2_isZero :: "Vec2 \<Rightarrow> bool" where
  "Vec2_isZero this = (Vec2_x this = 0 \<and> Vec2_y this = 0)"

definition Vec2_isUnit :: "precision \<Rightarrow> Vec2 \<Rightarrow> bool" where
  "Vec2_isUnit pr this = (\<bar>Vec2_lengthSquared this - 1\<bar> < Epsilon pr)"

subsection \<open>Vec2 in the other two copies of the header\<close>

text \<open>
  The repository holds two more copies of the header. In the copy that defines
  \<^verbatim>\<open>Vec2\<close> and \<^verbatim>\<open>Vec3\<close> only (\<^verbatim>\<open>part_000\<close>), \<^verbatim>\<open>Vec2\<close> has the comparison operators,
  which \<^verbatim>\<open>include/OxygenMathLite.h\<close> gives to \<^verbatim>\<open>Vec3\<close> alone; its other \<^verbatim>\<open>Vec2\<close>
  members compute what the ones above do.
\<close>

definition Vec2_eq :: "Vec2 \<Rightarrow> Vec2 \<Rightarrow> bool" where
  "Vec2_eq this other = (Vec2_x this = Vec2_x other \<and> Vec2_y this = Vec2_y other)"

definition Vec2_neq :: "Vec2 \<Rightarrow> Vec2 \<Rightarrow> bool" where
  "Vec2_neq this other = (\<not> Vec2_eq this other)"

text \<open>
  The copy that defines \<^verbatim>\<open>Vec2\<close> only (the first document of \<^verbatim>\<open>part_001\<close>) fixes
  \<^verbatim>\<open>Epsilon = 1e-6f\<close> and has its own bodies for \<^verbatim>\<open>project\<close> and \<^verbatim>\<open>isUnit\<close>.
\<close>

definition Epsilon_part_001 :: real where
  "Epsilon_part_001 = 1 / 10 ^ 6"

definition Vec2_project_part_001 :: "Vec2 \<Rightarrow> Vec2 \<Rightarrow> Vec2 option" where
  "Vec2_project_part_001 this other =
     (let len = Vec2_length other
      in if len < Epsilon_part_001 then Some \<lparr>Vec2_x = 0, Vec2_y = 0\<rparr>
         else do {
           qx \<leftarrow> fdiv (Vec2_x other) len;
           qy \<leftarrow> fdiv (Vec2_y other) len;
           Some \<lparr>Vec2_x = qx, Vec2_y = qy\<rparr>
         })"

definition Vec2_isUnit_part_001 :: "Vec2 \<Rightarrow> bool" where
  "Vec2_isUnit_part_001 this = (Vec2_lengthSquared this - 1 < Epsilon_part_001)"

section \<open>Vec3\<close>

record Vec3 =
  Vec3_x :: real
  Vec3_y :: real
  Vec3_z :: real

definition Vec3_sub :: "Vec3 \<Rightarrow> Vec3 \<Rightarrow> Vec3" where
  "Vec3_sub this other =
     \<lparr>Vec3_x = Vec3_x this - Vec3_x other, Vec3_y = Vec3_y this - Vec3_y other,
      Vec3_z = Vec3_z this - Vec3_z other\<rparr>"

definition Vec3_mul :: "Vec3 \<Rightarrow> real \<Rightarrow> Vec3" where
  "Vec3_mul this s = \<lparr>Vec3_x = Vec3_x this * s, Vec3_y = Vec3_y this * s, Vec3_z = Vec3_z this * s\<rparr>"

definition real_mul_Vec3 :: "real \<Rightarrow> Vec3 \<Rightarrow> Vec3" where
  "real_mul_Vec3 scalar v = Vec3_mul v scalar"

definition Vec3_eq :: "Vec3 \<Rightarrow> Vec3 \<Rightarrow> bool" where
  "Vec3_eq this other =
     (Vec3_x this = Vec3_x other \<and> Vec3_y this = Vec3_y other \<and> Vec3_z this = Vec3_z other)"

definition Vec3_neq :: "Vec3 \<Rightarrow> Vec3 \<Rightarrow> bool" where
  "Vec3_neq this other = (\<not> Vec3_eq this other)"

definition Vec3_length :: "Vec3 \<Rightarrow> real" where
  "Vec3_length this =
     sqrt (Vec3_x this * Vec3_x this + Vec3_y this * Vec3_y this + Vec3_z this * Vec3_z this)"

definition Vec3_lengthSquared :: "Vec3 \<Rightarrow> real" where
  "Vec3_lengthSquared this =
     Vec3_x this * Vec3_x this + Vec3_y this * Vec3_y this + Vec3_z this * Vec3_z this"

definition Vec3_normalize :: "precision \<Rightarrow> Vec3 \<Rightarrow> Vec3 option" where
  "Vec3_normalize pr this =
     (let len = Vec3_length this
      in if len < Epsilon pr then Some \<lparr>Vec3_x = 0, Vec3_y = 0, Vec3_z = 0\<rparr>
         else do {
           qx \<leftarrow> fdiv (Vec3_x this) len;
           qy \<leftarrow> fdiv (Vec3_y this) len;
           qz \<leftarrow> fdiv (Vec3_z this) len;
           Some \<lparr>Vec3_x = qx, Vec3_y = qy, Vec3_z = qz\<rparr>
         })"

definition Vec3_normalizeSelf :: "precision \<Rightarrow> Vec3 \<Rightarrow> Vec3 option" where
  "Vec3_normalizeSelf pr this =
     (let len = Vec3_length this
      in if len < Epsilon pr
         then (let s1 = this\<lparr>Vec3_z := 0\<rparr>; s2 = s1\<lparr>Vec3_y := Vec3_z s1\<rparr>;
                   s3 = s2\<lparr>Vec3_x := Vec3_y s2\<rparr>
               in Some s3)
         else do {
           qx \<leftarrow> fdiv (Vec3_x this) len;
           let s1 = this\<lparr>Vec3_x := qx\<rparr>;
           qy \<leftarrow> fdiv (Vec3_y s1) len;
           let s2 = s1\<lparr>Vec3_y := qy\<rparr>;
           qz \<leftarrow> fdiv (Vec3_z s2) len;
           Some (s2\<lparr>Vec3_z := qz\<rparr>)
         })"

definition Vec3_dot :: "Vec3 \<Rightarrow> Vec3 \<Rightarrow> real" where
  "Vec3_dot this other =
     Vec3_x this * Vec3_x other + Vec3_y this * Vec3_y other + Vec3_z this * Vec3_z other"

definition Vec3_reflect :: "precision \<Rightarrow> Vec3 \<Rightarrow> Vec3 \<Rightarrow> Vec3 option" where
  "Vec3_reflect pr this normal =
     do {
       n \<leftarrow> Vec3_normalize pr normal;
       Some (Vec3_sub this (real_mul_Vec3 (2 * Vec3_dot this n) n))
     }"

definition Vec3_isZero :: "Vec3 \<Rightarrow> bool" where
  "Vec3_isZero this = (Vec3_x this = 0 \<and> Vec3_y this = 0 \<and> Vec3_z this = 0)"

definition Vec3_isUnit :: "precision \<Rightarrow> Vec3 \<Rightarrow> bool" where
  "Vec3_isUnit pr this = (\<bar>Vec3_lengthSquared this - 1\<bar> < Epsilon pr)"

section \<open>Mat2\<close>

record Mat2 =
  m00 :: real
  m01 :: real
  m10 :: real
  m11 :: real

definition Mat2_mul_Vec2 :: "Mat2 \<Rightarrow> Vec2 \<Rightarrow> Vec2" where
  "Mat2_mul_Vec2 this v =
     \<lparr>Vec2_x = m00 this * Vec2_x v + m01 this * Vec2_y v,
      Vec2_y = m10 this * Vec2_x v + m11 this * Vec2_y v\<rparr>"

definition Rotation :: "real \<Rightarrow> Mat2" where
  "Rotation rads = (let c = cos rads; s = sin rads in \<lparr>m00 = c, m01 = - s, m10 = s, m11 = c\<rparr>)"

section \<open>Geometry2D\<close>


section \<open>Integration2D\<close>

text \<open>
  Both integrators write through the references \<^verbatim>\<open>position\<close> and \<^verbatim>\<open>velocity\<close> and
  return nothing; the model takes the two objects (distinct from each other and from
  \<^verbatim>\<open>acceleration\<close>) and returns them, updated, as the pair (position, velocity).
\<close>

definition Euler :: "Vec2 \<Rightarrow> Vec2 \<Rightarrow> Vec2 \<Rightarrow> real \<Rightarrow> Vec2 \<times> Vec2" where
  "Euler position velocity acceleration dt =
     (let velocity = Vec2_add_assign velocity (Vec2_mul acceleration dt);
          position = Vec2_add_assign position (Vec2_mul velocity dt)
      in (position, velocity))"

definition RK2 :: "Vec2 \<Rightarrow> Vec2 \<Rightarrow> Vec2 \<Rightarrow> real \<Rightarrow> Vec2 \<times> Vec2" where
  "RK2 position velocity acceleration dt =
     (let v_mid = Vec2_add velocity (Vec2_mul acceleration (dt * 0.5));
          position = Vec2_add_assign position (Vec2_mul v_mid dt);
          velocity = Vec2_add_assign velocity (Vec2_mul acceleration dt)
      in (position, velocity))"

section \<open>Rounded arithmetic\<close>

text \<open>
  The scalar type is IEEE 754 binary32 (\<^verbatim>\<open>float\<close>) or binary64 (\<^verbatim>\<open>double\<close>): a finite
  scalar is an integer multiple of a power of two with at most \<open>prec\<close> significant bits
  and exponent between \<open>emin\<close> and \<open>emax\<close>. Every sum, difference and product of the
  source is rounded to the nearest scalar, ties to the even one, on its own (no fused
  multiply-add, no wider intermediate); a result too large for the type is an
  infinity and has the value \<open>None\<close>.
\<close>

definition prec :: "precision \<Rightarrow> nat" where
  "prec pr = (case pr of DoublePrecision \<Rightarrow> 53 | SinglePrecision \<Rightarrow> 24)"

definition emin :: "precision \<Rightarrow> int" where
  "emin pr = (case pr of DoublePrecision \<Rightarrow> - 1022 | SinglePrecision \<Rightarrow> - 126)"

definition emax :: "precision \<Rightarrow> int" where
  "emax pr = (case pr of DoublePrecision \<Rightarrow> 1023 | SinglePrecision \<Rightarrow> 127)"

text \<open>The integer nearest to \<open>q\<close>, the even one of the two when \<open>q\<close> is half way.\<close>

definition round_even :: "real \<Rightarrow> int" where
  "round_even q =
     (let n = \<lfloor>q\<rfloor>; r = q - of_int n
      in if r < 1 / 2 then n else if 1 / 2 < r then n + 1 else if even n then n else n + 1)"

text \<open>
  \<open>binade n e x\<close> looks for the exponent of \<open>x \<ge> 0\<close> from \<open>e\<close> downwards: the largest
  \<open>e' \<le> e\<close> with \<open>2 powi e' \<le> x\<close>, or \<open>e - n\<close> when \<open>x\<close> is below all of them (the
  subnormal range, where the spacing of the scalars no longer shrinks).
\<close>

fun binade :: "nat \<Rightarrow> int \<Rightarrow> real \<Rightarrow> int" where
  "binade 0 e x = e"
| "binade (Suc n) e x = (if 2 powi e \<le> x then e else binade n (e - 1) x)"

definition fround :: "precision \<Rightarrow> real \<Rightarrow> real option" where
  "fround pr x =
     (let e = binade (nat (emax pr - emin pr)) (emax pr) \<bar>x\<bar>;
          ulp = 2 powi (e - (int (prec pr) - 1));
          y = of_int (round_even (x / ulp)) * ulp
      in if 2 powi (emax pr + 1) \<le> \<bar>y\<bar> then None else Some y)"

definition fmul :: "precision \<Rightarrow> real \<Rightarrow> real \<Rightarrow> real option" where
  "fmul pr a b = fround pr (a * b)"

definition fadd :: "precision \<Rightarrow> real \<Rightarrow> real \<Rightarrow> real option" where
  "fadd pr a b = fround pr (a + b)"

definition fsub :: "precision \<Rightarrow> real \<Rightarrow> real \<Rightarrow> real option" where
  "fsub pr a b = fround pr (a - b)"

text \<open>
  \<^verbatim>\<open>Vec2::operator*(real)\<close>, \<^verbatim>\<open>Vec2::operator-\<close>, \<^verbatim>\<open>Vec2::operator+=\<close>,
  \<^verbatim>\<open>Vec2::lengthSquared\<close> and \<^verbatim>\<open>Integration2D::Euler\<close> once more, statement by
  statement as above, with every operation rounded.
\<close>

definition Vec2_mul_fl :: "precision \<Rightarrow> Vec2 \<Rightarrow> real \<Rightarrow> Vec2 option" where
  "Vec2_mul_fl pr this s =
     do {
       px \<leftarrow> fmul pr (Vec2_x this) s;
       py \<leftarrow> fmul pr (Vec2_y this) s;
       Some \<lparr>Vec2_x = px, Vec2_y = py\<rparr>
     }"

definition Vec2_sub_fl :: "precision \<Rightarrow> Vec2 \<Rightarrow> Vec2 \<Rightarrow> Vec2 option" where
  "Vec2_sub_fl pr this other =
     do {
       dx \<leftarrow> fsub pr (Vec2_x this) (Vec2_x other);
       dy \<leftarrow> fsub pr (Vec2_y this) (Vec2_y other);
       Some \<lparr>Vec2_x = dx, Vec2_y = dy\<rparr>
     }"

definition Vec2_add_assign_fl :: "precision \<Rightarrow> Vec2 \<Rightarrow> Vec2 \<Rightarrow> Vec2 option" where
  "Vec2_add_assign_fl pr this other =
     do {
       sx \<leftarrow> fadd pr (Vec2_x this) (Vec2_x other);
       let s1 = this\<lparr>Vec2_x := sx\<rparr>;
       sy \<leftarrow> fadd pr (Vec2_y s1) (Vec2_y other);
       Some (s1\<lparr>Vec2_y := sy\<rparr>)
     }"

definition Vec2_lengthSquared_fl :: "precision \<Rightarrow> Vec2 \<Rightarrow> real option" where
  "Vec2_lengthSquared_fl pr this =
     do {
       xx \<leftarrow> fmul pr (Vec2_x this) (Vec2_x this);
       yy \<leftarrow> fmul pr (Vec2_y this) (Vec2_y this);
       fadd pr xx yy
     }"

definition Euler_fl :: "precision \<Rightarrow> Vec2 \<Rightarrow> Vec2 \<Rightarrow> Vec2 \<Rightarrow> real \<Rightarrow> (Vec2 \<times> Vec2) option" where
  "Euler_fl pr position velocity acceleration dt =
     do {
       step \<leftarrow> Vec2_mul_fl pr acceleration dt;
       velocity \<leftarrow> Vec2_add_assign_fl pr velocity step;
       step \<leftarrow> Vec2_mul_fl pr velocity dt;
       position \<leftarrow> Vec2_add_assign_fl pr position step;
       Some (position, velocity)
     }"

section \<open>Facts about the scalar layer\<close>

lemma Epsilon_pos: "0 < Epsilon pr"
  by (cases pr) (simp_all add: Epsilon_def)

lemma fdiv_Some: "b \<noteq> 0 \<Longrightarrow> fdiv a b = Some (a / b)"
  by (simp add: fdiv_def)

text \<open>A scalar that is not below \<^verbatim>\<open>Epsilon\<close> is a divisor the quotient accepts.\<close>

lemma not_below_Epsilon_nonzero: "\<not> len < Epsilon pr \<Longrightarrow> len \<noteq> 0"
  using Epsilon_pos [of pr] by auto


lemma Vec2_length_axis: "Vec2_length \<lparr>Vec2_x = 0, Vec2_y = c\<rparr> = \<bar>c\<bar>"
  by (simp add: Vec2_length_def)

lemma Vec2_length_x_axis: "Vec2_length \<lparr>Vec2_x = c, Vec2_y = 0\<rparr> = \<bar>c\<bar>"
  by (simp add: Vec2_length_def)

lemma Vec3_length_axis: "Vec3_length \<lparr>Vec3_x = 0, Vec3_y = 0, Vec3_z = c\<rparr> = \<bar>c\<bar>"
  by (simp add: Vec3_length_def)

lemma Vec2_lengthSquared_sub_zero: "Vec2_lengthSquared (Vec2_sub b a) = 0 \<longleftrightarrow> a = b"
proof -
  have "Vec2_lengthSquared (Vec2_sub b a)
          = (Vec2_x b - Vec2_x a)\<^sup>2 + (Vec2_y b - Vec2_y a)\<^sup>2"
    by (simp add: Vec2_lengthSquared_def Vec2_sub_def power2_eq_square)
  then show ?thesis
    by auto
qed

section \<open>Facts about rounding\<close>

text \<open>The exponent search finds the binade of its argument.\<close>

lemma binade_eq:
  "e0 - int n \<le> e \<Longrightarrow> e \<le> e0 \<Longrightarrow> 2 powi e \<le> x \<Longrightarrow> x < 2 powi (e + 1) \<Longrightarrow> binade n e0 x = e"
proof (induction n arbitrary: e0)
  case 0
  then show ?case by simp
next
  case (Suc n)
  show ?case
  proof (cases "2 powi e0 \<le> x")
    case True
    have "e0 = e"
    proof (rule ccontr)
      assume "e0 \<noteq> e"
      with Suc.prems have "e + 1 \<le> e0" by simp
      then have "(2::real) powi (e + 1) \<le> 2 powi e0"
        by (intro power_int_increasing) auto
      with True Suc.prems show False by simp
    qed
    with True show ?thesis by simp
  next
    case False
    with Suc.prems have "e \<noteq> e0" by auto
    with Suc.prems have "e0 - 1 - int n \<le> e" "e \<le> e0 - 1" by simp_all
    with Suc.IH [of "e0 - 1"] Suc.prems have "binade n (e0 - 1) x = e" by simp
    with False show ?thesis by simp
  qed
qed

lemma binade_bottom: "x < 2 powi (e0 - int n + 1) \<Longrightarrow> binade n e0 x = e0 - int n"
proof (induction n arbitrary: e0)
  case 0
  then show ?case by simp
next
  case (Suc n)
  have "(2::real) powi (e0 - int n) \<le> 2 powi e0"
    by (intro power_int_increasing) auto
  with Suc.prems have "\<not> 2 powi e0 \<le> x" by simp
  moreover from Suc.prems Suc.IH [of "e0 - 1"] have "binade n (e0 - 1) x = e0 - 1 - int n"
    by simp
  ultimately show ?case by simp
qed

text \<open>Rounding a number whose binade \<open>e\<close> is known, and rounding in the subnormal range.\<close>

lemma fround_binade:
  assumes "emin pr \<le> e" "e \<le> emax pr" "2 powi e \<le> \<bar>x\<bar>" "\<bar>x\<bar> < 2 powi (e + 1)"
  shows "fround pr x =
     (let ulp = 2 powi (e - (int (prec pr) - 1));
          y = of_int (round_even (x / ulp)) * ulp
      in if 2 powi (emax pr + 1) \<le> \<bar>y\<bar> then None else Some y)"
proof -
  have "emax pr - int (nat (emax pr - emin pr)) \<le> e"
    using assms by simp
  then have "binade (nat (emax pr - emin pr)) (emax pr) \<bar>x\<bar> = e"
    using assms by (intro binade_eq) auto
  then show ?thesis
    by (simp add: fround_def)
qed

lemma fround_subnormal:
  assumes "emin pr \<le> emax pr" "\<bar>x\<bar> < 2 powi (emin pr + 1)"
  shows "fround pr x =
     (let ulp = 2 powi (emin pr - (int (prec pr) - 1));
          y = of_int (round_even (x / ulp)) * ulp
      in if 2 powi (emax pr + 1) \<le> \<bar>y\<bar> then None else Some y)"
proof -
  have "emax pr - int (nat (emax pr - emin pr)) = emin pr"
    using assms by simp
  with assms binade_bottom [of "\<bar>x\<bar>" "emax pr" "nat (emax pr - emin pr)"]
  have "binade (nat (emax pr - emin pr)) (emax pr) \<bar>x\<bar> = emin pr"
    by simp
  then show ?thesis
    by (simp add: fround_def)
qed

lemmas fl_eval = emin_def emax_def prec_def round_even_def Let_def

lemma fround_0: "fround pr 0 = Some 0"
  by (simp add: fround_def round_even_def Let_def not_le)

subsection \<open>The roundings of one Euler step, binary32\<close>

text \<open>The scalars nearest to \<open>-9.8\<close>, \<open>0.1\<close>, \<open>-0.98\<close> and \<open>-0.098\<close>.\<close>

lemma single_acc: "fround SinglePrecision (- 9.8) = Some (- (10276045 / 1048576))"
  by (subst fround_binade [where e = 3]) (simp_all add: fl_eval)

lemma single_dt: "fround SinglePrecision 0.1 = Some (13421773 / 134217728)"
  by (subst fround_binade [where e = "- 4"]) (simp_all add: fl_eval)

lemma single_lit_vel: "fround SinglePrecision (- 0.98) = Some (- (2055209 / 2097152))"
  by (subst fround_binade [where e = "- 1"]) (simp_all add: fl_eval)

lemma single_lit_pos: "fround SinglePrecision (- 0.098) = Some (- (13153337 / 134217728))"
  by (subst fround_binade [where e = "- 4"]) (simp_all add: fl_eval)

text \<open>The products of the step, and the scalars that the sums leave as they are.\<close>

lemma single_acc_dt:
  "fround SinglePrecision (- (10276045 / 1048576) * (13421773 / 134217728))
     = Some (- (2055209 / 2097152))"
  by (subst fround_binade [where e = "- 1"]) (simp_all add: fl_eval)

lemma single_vel_dt:
  "fround SinglePrecision (- (2055209 / 2097152) * (13421773 / 134217728))
     = Some (- (6576669 / 67108864))"
  by (subst fround_binade [where e = "- 4"]) (simp_all add: fl_eval)

lemma single_one: "fround SinglePrecision 1 = Some 1"
  by (subst fround_binade [where e = 0]) (simp_all add: fl_eval)

lemma single_dt_fix:
  "fround SinglePrecision (13421773 / 134217728) = Some (13421773 / 134217728)"
  by (subst fround_binade [where e = "- 4"]) (simp_all add: fl_eval)

lemma single_vel_fix:
  "fround SinglePrecision (- (2055209 / 2097152)) = Some (- (2055209 / 2097152))"
  by (subst fround_binade [where e = "- 1"]) (simp_all add: fl_eval)

lemma single_pos_fix:
  "fround SinglePrecision (- (6576669 / 67108864)) = Some (- (6576669 / 67108864))"
  by (subst fround_binade [where e = "- 4"]) (simp_all add: fl_eval)

lemma Euler_fl_single:
  "Euler_fl SinglePrecision \<lparr>Vec2_x = 0, Vec2_y = 0\<rparr> \<lparr>Vec2_x = 1, Vec2_y = 0\<rparr>
      \<lparr>Vec2_x = 0, Vec2_y = - (10276045 / 1048576)\<rparr> (13421773 / 134217728)
    = Some (\<lparr>Vec2_x = 13421773 / 134217728, Vec2_y = - (6576669 / 67108864)\<rparr>,
            \<lparr>Vec2_x = 1, Vec2_y = - (2055209 / 2097152)\<rparr>)"
proof -
  have acc_dt: "Vec2_mul_fl SinglePrecision \<lparr>Vec2_x = 0, Vec2_y = - (10276045 / 1048576)\<rparr>
        (13421773 / 134217728)
      = Some \<lparr>Vec2_x = 0, Vec2_y = - (2055209 / 2097152)\<rparr>"
    using single_acc_dt by (simp add: Vec2_mul_fl_def fmul_def fround_0)
  have vel: "Vec2_add_assign_fl SinglePrecision \<lparr>Vec2_x = 1, Vec2_y = 0\<rparr>
        \<lparr>Vec2_x = 0, Vec2_y = - (2055209 / 2097152)\<rparr>
      = Some \<lparr>Vec2_x = 1, Vec2_y = - (2055209 / 2097152)\<rparr>"
    by (simp add: Vec2_add_assign_fl_def fadd_def single_one single_vel_fix)
  have vel_dt: "Vec2_mul_fl SinglePrecision \<lparr>Vec2_x = 1, Vec2_y = - (2055209 / 2097152)\<rparr>
        (13421773 / 134217728)
      = Some \<lparr>Vec2_x = 13421773 / 134217728, Vec2_y = - (6576669 / 67108864)\<rparr>"
    using single_vel_dt by (simp add: Vec2_mul_fl_def fmul_def single_dt_fix)
  have pos: "Vec2_add_assign_fl SinglePrecision \<lparr>Vec2_x = 0, Vec2_y = 0\<rparr>
        \<lparr>Vec2_x = 13421773 / 134217728, Vec2_y = - (6576669 / 67108864)\<rparr>
      = Some \<lparr>Vec2_x = 13421773 / 134217728, Vec2_y = - (6576669 / 67108864)\<rparr>"
    by (simp add: Vec2_add_assign_fl_def fadd_def single_dt_fix single_pos_fix)
  show ?thesis
    by (simp add: Euler_fl_def acc_dt vel vel_dt pos)
qed

subsection \<open>The roundings of one Euler step, binary64\<close>

lemma double_acc:
  "fround DoublePrecision (- 9.8) = Some (- (2758454771764429 / 281474976710656))"
  by (subst fround_binade [where e = 3]) (simp_all add: fl_eval)

lemma double_dt:
  "fround DoublePrecision 0.1 = Some (3602879701896397 / 36028797018963968)"
  by (subst fround_binade [where e = "- 4"]) (simp_all add: fl_eval)

lemma double_lit_vel:
  "fround DoublePrecision (- 0.98) = Some (- (2206763817411543 / 2251799813685248))"
  by (subst fround_binade [where e = "- 1"]) (simp_all add: fl_eval)

lemma double_lit_pos:
  "fround DoublePrecision (- 0.098) = Some (- (3530822107858469 / 36028797018963968))"
  by (subst fround_binade [where e = "- 4"]) (simp_all add: fl_eval)

lemma double_acc_dt:
  "fround DoublePrecision
     (- (2758454771764429 / 281474976710656) * (3602879701896397 / 36028797018963968))
     = Some (- (8827055269646173 / 9007199254740992))"
  by (subst fround_binade [where e = "- 1"]) (simp_all add: fl_eval)

lemma double_vel_dt:
  "fround DoublePrecision
     (- (8827055269646173 / 9007199254740992) * (3602879701896397 / 36028797018963968))
     = Some (- (7061644215716939 / 72057594037927936))"
  by (subst fround_binade [where e = "- 4"]) (simp_all add: fl_eval)

lemma double_one: "fround DoublePrecision 1 = Some 1"
  by (subst fround_binade [where e = 0]) (simp_all add: fl_eval)

lemma double_dt_fix:
  "fround DoublePrecision (3602879701896397 / 36028797018963968)
     = Some (3602879701896397 / 36028797018963968)"
  by (subst fround_binade [where e = "- 4"]) (simp_all add: fl_eval)

lemma double_vel_fix:
  "fround DoublePrecision (- (8827055269646173 / 9007199254740992))
     = Some (- (8827055269646173 / 9007199254740992))"
  by (subst fround_binade [where e = "- 1"]) (simp_all add: fl_eval)

lemma double_pos_fix:
  "fround DoublePrecision (- (7061644215716939 / 72057594037927936))
     = Some (- (7061644215716939 / 72057594037927936))"
  by (subst fround_binade [where e = "- 4"]) (simp_all add: fl_eval)

lemma Euler_fl_double:
  "Euler_fl DoublePrecision \<lparr>Vec2_x = 0, Vec2_y = 0\<rparr> \<lparr>Vec2_x = 1, Vec2_y = 0\<rparr>
      \<lparr>Vec2_x = 0, Vec2_y = - (2758454771764429 / 281474976710656)\<rparr>
      (3602879701896397 / 36028797018963968)
    = Some (\<lparr>Vec2_x = 3602879701896397 / 36028797018963968,
              Vec2_y = - (7061644215716939 / 72057594037927936)\<rparr>,
            \<lparr>Vec2_x = 1, Vec2_y = - (8827055269646173 / 9007199254740992)\<rparr>)"
proof -
  have acc_dt: "Vec2_mul_fl DoublePrecision
        \<lparr>Vec2_x = 0, Vec2_y = - (2758454771764429 / 281474976710656)\<rparr>
        (3602879701896397 / 36028797018963968)
      = Some \<lparr>Vec2_x = 0, Vec2_y = - (8827055269646173 / 9007199254740992)\<rparr>"
    using double_acc_dt by (simp add: Vec2_mul_fl_def fmul_def fround_0)
  have vel: "Vec2_add_assign_fl DoublePrecision \<lparr>Vec2_x = 1, Vec2_y = 0\<rparr>
        \<lparr>Vec2_x = 0, Vec2_y = - (8827055269646173 / 9007199254740992)\<rparr>
      = Some \<lparr>Vec2_x = 1, Vec2_y = - (8827055269646173 / 9007199254740992)\<rparr>"
    by (simp add: Vec2_add_assign_fl_def fadd_def double_one double_vel_fix)
  have vel_dt: "Vec2_mul_fl DoublePrecision
        \<lparr>Vec2_x = 1, Vec2_y = - (8827055269646173 / 9007199254740992)\<rparr>
        (3602879701896397 / 36028797018963968)
      = Some \<lparr>Vec2_x = 3602879701896397 / 36028797018963968,
               Vec2_y = - (7061644215716939 / 72057594037927936)\<rparr>"
    using double_vel_dt by (simp add: Vec2_mul_fl_def fmul_def double_dt_fix)
  have pos: "Vec2_add_assign_fl DoublePrecision \<lparr>Vec2_x = 0, Vec2_y = 0\<rparr>
        \<lparr>Vec2_x = 3602879701896397 / 36028797018963968,
         Vec2_y = - (7061644215716939 / 72057594037927936)\<rparr>
      = Some \<lparr>Vec2_x = 3602879701896397 / 36028797018963968,
               Vec2_y = - (7061644215716939 / 72057594037927936)\<rparr>"
    by (simp add: Vec2_add_assign_fl_def fadd_def double_dt_fix double_pos_fix)
  show ?thesis
    by (simp add: Euler_fl_def acc_dt vel vel_dt pos)
qed

subsection \<open>A squared length that underflows\<close>

text \<open>
  The endpoints \<open>(0, 0)\<close> and \<open>(2 powi -80, 0)\<close> differ, and the squared length of their
  difference, \<open>2 powi -160\<close>, is below half the smallest binary32 scalar: as computed
  it is \<open>0\<close>. Whether a divisor is zero is a fact about the divisor as computed.
\<close>

lemma lengthSquared_underflow:
  "\<lparr>Vec2_x = 1 / 2 ^ 80, Vec2_y = 0\<rparr> \<noteq> \<lparr>Vec2_x = 0, Vec2_y = 0\<rparr>
   \<and> Vec2_sub_fl SinglePrecision \<lparr>Vec2_x = 1 / 2 ^ 80, Vec2_y = 0\<rparr> \<lparr>Vec2_x = 0, Vec2_y = 0\<rparr>
       = Some \<lparr>Vec2_x = 1 / 2 ^ 80, Vec2_y = 0\<rparr>
   \<and> Vec2_lengthSquared_fl SinglePrecision \<lparr>Vec2_x = 1 / 2 ^ 80, Vec2_y = 0\<rparr> = Some 0"
proof -
  have diff: "fround SinglePrecision (1 / 2 ^ 80) = Some (1 / 2 ^ 80)"
    by (subst fround_binade [where e = "- 80"]) (simp_all add: fl_eval)
  have square: "fround SinglePrecision (1 / 2 ^ 80 * (1 / 2 ^ 80)) = Some 0"
    by (subst fround_subnormal) (simp_all add: fl_eval)
  show ?thesis
    using diff square
    by (simp add: Vec2_sub_fl_def Vec2_lengthSquared_fl_def fsub_def fmul_def fadd_def fround_0)
qed

section \<open>The integrators\<close>

text \<open>
  In exact arithmetic the step from \<open>p = (0, 0)\<close>, \<open>v = (1, 0)\<close>, \<open>a = (0, -9.8)\<close>,
  \<open>dt = 0.1\<close> ends with \<open>v = (1, -0.98)\<close> and \<open>p = (0.1, -0.098)\<close>.
\<close>

lemma Euler_exact_arithmetic_step:
  "Euler \<lparr>Vec2_x = 0, Vec2_y = 0\<rparr> \<lparr>Vec2_x = 1, Vec2_y = 0\<rparr> \<lparr>Vec2_x = 0, Vec2_y = - 9.8\<rparr> 0.1
     = (\<lparr>Vec2_x = 0.1, Vec2_y = - 0.098\<rparr>, \<lparr>Vec2_x = 1, Vec2_y = - 0.98\<rparr>)"
  by (simp add: Euler_def Vec2_add_assign_def Vec2_mul_def Let_def)

text \<open>
  C1, as the specification has it, ends the step from \<open>p = (0, 0)\<close>, \<open>v = (1, 0)\<close>,
  \<open>a = (0, -9.8)\<close>, \<open>dt = 0.1\<close> with \<open>v = (1, -0.98)\<close> and \<open>p = (0.1, -0.098)\<close>. The scalars
  the code is called with are the ones nearest to \<open>-9.8\<close> and \<open>0.1\<close>, and the step
  computed on them does not end there. In the \<^verbatim>\<open>float\<close> build the position's \<open>y\<close> is
  \<open>-6576669 / 2^26\<close>, which is neither \<open>-0.098\<close> nor the scalar nearest to it, and the
  velocity's \<open>y\<close> is not \<open>-0.98\<close>; in the \<^verbatim>\<open>double\<close> build neither the velocity's nor the
  position's \<open>y\<close> is the scalar nearest to \<open>-0.98\<close> and \<open>-0.098\<close>.
\<close>

theorem Euler_exact_step_counterexample:
  "fround SinglePrecision (- 9.8) = Some (- (10276045 / 1048576))
   \<and> fround SinglePrecision 0.1 = Some (13421773 / 134217728)
   \<and> Euler_fl SinglePrecision \<lparr>Vec2_x = 0, Vec2_y = 0\<rparr> \<lparr>Vec2_x = 1, Vec2_y = 0\<rparr>
        \<lparr>Vec2_x = 0, Vec2_y = - (10276045 / 1048576)\<rparr> (13421773 / 134217728)
      = Some (\<lparr>Vec2_x = 13421773 / 134217728, Vec2_y = - (6576669 / 67108864)\<rparr>,
              \<lparr>Vec2_x = 1, Vec2_y = - (2055209 / 2097152)\<rparr>)
   \<and> (- (6576669 / 67108864) :: real) \<noteq> - 0.098
   \<and> fround SinglePrecision (- 0.098) \<noteq> Some (- (6576669 / 67108864))
   \<and> (- (2055209 / 2097152) :: real) \<noteq> - 0.98
   \<and> fround DoublePrecision (- 9.8) = Some (- (2758454771764429 / 281474976710656))
   \<and> fround DoublePrecision 0.1 = Some (3602879701896397 / 36028797018963968)
   \<and> Euler_fl DoublePrecision \<lparr>Vec2_x = 0, Vec2_y = 0\<rparr> \<lparr>Vec2_x = 1, Vec2_y = 0\<rparr>
        \<lparr>Vec2_x = 0, Vec2_y = - (2758454771764429 / 281474976710656)\<rparr>
        (3602879701896397 / 36028797018963968)
      = Some (\<lparr>Vec2_x = 3602879701896397 / 36028797018963968,
                Vec2_y = - (7061644215716939 / 72057594037927936)\<rparr>,
              \<lparr>Vec2_x = 1, Vec2_y = - (8827055269646173 / 9007199254740992)\<rparr>)
   \<and> fround DoublePrecision (- 0.98) \<noteq> Some (- (8827055269646173 / 9007199254740992))
   \<and> fround DoublePrecision (- 0.098) \<noteq> Some (- (7061644215716939 / 72057594037927936))"
  using single_acc single_dt single_lit_pos double_acc double_dt double_lit_vel double_lit_pos
  by (simp add: Euler_fl_single Euler_fl_double)

text \<open>
  C1, amended. One step of \<^verbatim>\<open>Euler\<close> leaves the velocity at \<open>v + a * dt\<close> and the
  position at \<open>p + (v + a * dt) * dt\<close>: the position is advanced with the velocity the
  step has just written, not with the one it was called with. From \<open>p = (0, 0)\<close>,
  \<open>v = (1, 0)\<close> and the scalars nearest to \<open>a = (0, -9.8)\<close> and \<open>dt = 0.1\<close>, the step as
  computed in the \<^verbatim>\<open>float\<close> and in the \<^verbatim>\<open>double\<close> build ends with every coordinate of
  the velocity within \<^verbatim>\<open>Epsilon\<close> of \<open>(1, -0.98)\<close> and every coordinate of the position
  within \<^verbatim>\<open>Epsilon\<close> of \<open>(0.1, -0.098)\<close>.
\<close>

theorem Euler_velocity_first:
  "snd (Euler p v a dt) = Vec2_add v (Vec2_mul a dt)
   \<and> fst (Euler p v a dt) = Vec2_add p (Vec2_mul (snd (Euler p v a dt)) dt)
   \<and> Vec2_x (fst (Euler p v a dt)) = Vec2_x p + (Vec2_x v + Vec2_x a * dt) * dt
   \<and> Vec2_y (fst (Euler p v a dt)) = Vec2_y p + (Vec2_y v + Vec2_y a * dt) * dt
   \<and> fround SinglePrecision (- 9.8) = Some (- (10276045 / 1048576))
   \<and> fround SinglePrecision 0.1 = Some (13421773 / 134217728)
   \<and> Euler_fl SinglePrecision \<lparr>Vec2_x = 0, Vec2_y = 0\<rparr> \<lparr>Vec2_x = 1, Vec2_y = 0\<rparr>
        \<lparr>Vec2_x = 0, Vec2_y = - (10276045 / 1048576)\<rparr> (13421773 / 134217728)
      = Some (\<lparr>Vec2_x = 13421773 / 134217728, Vec2_y = - (6576669 / 67108864)\<rparr>,
              \<lparr>Vec2_x = 1, Vec2_y = - (2055209 / 2097152)\<rparr>)
   \<and> \<bar>1 - 1\<bar> < Epsilon SinglePrecision
   \<and> \<bar>- (2055209 / 2097152) - (- 0.98)\<bar> < Epsilon SinglePrecision
   \<and> \<bar>13421773 / 134217728 - 0.1\<bar> < Epsilon SinglePrecision
   \<and> \<bar>- (6576669 / 67108864) - (- 0.098)\<bar> < Epsilon SinglePrecision
   \<and> fround DoublePrecision (- 9.8) = Some (- (2758454771764429 / 281474976710656))
   \<and> fround DoublePrecision 0.1 = Some (3602879701896397 / 36028797018963968)
   \<and> Euler_fl DoublePrecision \<lparr>Vec2_x = 0, Vec2_y = 0\<rparr> \<lparr>Vec2_x = 1, Vec2_y = 0\<rparr>
        \<lparr>Vec2_x = 0, Vec2_y = - (2758454771764429 / 281474976710656)\<rparr>
        (3602879701896397 / 36028797018963968)
      = Some (\<lparr>Vec2_x = 3602879701896397 / 36028797018963968,
                Vec2_y = - (7061644215716939 / 72057594037927936)\<rparr>,
              \<lparr>Vec2_x = 1, Vec2_y = - (8827055269646173 / 9007199254740992)\<rparr>)
   \<and> \<bar>1 - 1\<bar> < Epsilon DoublePrecision
   \<and> \<bar>- (8827055269646173 / 9007199254740992) - (- 0.98)\<bar> < Epsilon DoublePrecision
   \<and> \<bar>3602879701896397 / 36028797018963968 - 0.1\<bar> < Epsilon DoublePrecision
   \<and> \<bar>- (7061644215716939 / 72057594037927936) - (- 0.098)\<bar> < Epsilon DoublePrecision"
proof -
  have order: "snd (Euler p v a dt) = Vec2_add v (Vec2_mul a dt)
      \<and> fst (Euler p v a dt) = Vec2_add p (Vec2_mul (snd (Euler p v a dt)) dt)
      \<and> Vec2_x (fst (Euler p v a dt)) = Vec2_x p + (Vec2_x v + Vec2_x a * dt) * dt
      \<and> Vec2_y (fst (Euler p v a dt)) = Vec2_y p + (Vec2_y v + Vec2_y a * dt) * dt"
    by (simp add: Euler_def Vec2_add_assign_def Vec2_add_def Vec2_mul_def Let_def)
  have single: "\<bar>1 - 1\<bar> < Epsilon SinglePrecision
      \<and> \<bar>- (2055209 / 2097152) - (- 0.98)\<bar> < Epsilon SinglePrecision
      \<and> \<bar>13421773 / 134217728 - 0.1\<bar> < Epsilon SinglePrecision
      \<and> \<bar>- (6576669 / 67108864) - (- 0.098)\<bar> < Epsilon SinglePrecision"
    by (simp add: Epsilon_def)
  have double: "\<bar>1 - 1\<bar> < Epsilon DoublePrecision
      \<and> \<bar>- (8827055269646173 / 9007199254740992) - (- 0.98)\<bar> < Epsilon DoublePrecision
      \<and> \<bar>3602879701896397 / 36028797018963968 - 0.1\<bar> < Epsilon DoublePrecision
      \<and> \<bar>- (7061644215716939 / 72057594037927936) - (- 0.098)\<bar> < Epsilon DoublePrecision"
    by (simp add: Epsilon_def)
  from order single double Euler_fl_single Euler_fl_double
    single_acc single_dt double_acc double_dt
  show ?thesis
    by blast
qed

text \<open>
  C6. One step of \<^verbatim>\<open>RK2\<close> forms the midpoint velocity \<open>v_mid = v + a * (dt / 2)\<close>, leaves
  the position at \<open>p + v_mid * dt\<close> and the velocity at \<open>v + a * dt\<close>.
\<close>

theorem RK2_midpoint:
  "fst (RK2 p v a dt) = Vec2_add p (Vec2_mul (Vec2_add v (Vec2_mul a (dt / 2))) dt)
   \<and> snd (RK2 p v a dt) = Vec2_add v (Vec2_mul a dt)
   \<and> Vec2_x (fst (RK2 p v a dt)) = Vec2_x p + (Vec2_x v + Vec2_x a * (dt / 2)) * dt
   \<and> Vec2_y (fst (RK2 p v a dt)) = Vec2_y p + (Vec2_y v + Vec2_y a * (dt / 2)) * dt"
  by (simp add: RK2_def Vec2_add_assign_def Vec2_add_def Vec2_mul_def Let_def)

section \<open>Normalisation and reflection\<close>

text \<open>
  C3. \<^verbatim>\<open>normalize\<close>, on \<^verbatim>\<open>Vec2\<close> and on \<^verbatim>\<open>Vec3\<close>, returns the zero vector when the
  length is below \<^verbatim>\<open>Epsilon\<close> and the vector with every component divided by the length
  otherwise. It always has a result: the guard keeps zero away from the divisor.
  \<^verbatim>\<open>normalizeSelf\<close> leaves the object with the value \<^verbatim>\<open>normalize\<close> returns.
\<close>

theorem normalize_total:
  "Vec2_normalize pr v =
     Some (if Vec2_length v < Epsilon pr then \<lparr>Vec2_x = 0, Vec2_y = 0\<rparr>
           else \<lparr>Vec2_x = Vec2_x v / Vec2_length v, Vec2_y = Vec2_y v / Vec2_length v\<rparr>)
   \<and> Vec2_normalizeSelf pr v = Vec2_normalize pr v
   \<and> Vec3_normalize pr w =
     Some (if Vec3_length w < Epsilon pr then \<lparr>Vec3_x = 0, Vec3_y = 0, Vec3_z = 0\<rparr>
           else \<lparr>Vec3_x = Vec3_x w / Vec3_length w, Vec3_y = Vec3_y w / Vec3_length w,
                 Vec3_z = Vec3_z w / Vec3_length w\<rparr>)
   \<and> Vec3_normalizeSelf pr w = Vec3_normalize pr w"
  by (simp add: Vec2_normalize_def Vec2_normalizeSelf_def Vec3_normalize_def
      Vec3_normalizeSelf_def Let_def fdiv_Some not_below_Epsilon_nonzero)

lemma Vec2_normalize_below:
  "Vec2_length n < Epsilon pr \<Longrightarrow> Vec2_normalize pr n = Some \<lparr>Vec2_x = 0, Vec2_y = 0\<rparr>"
  by (simp add: Vec2_normalize_def)

lemma Vec3_normalize_below:
  "Vec3_length n < Epsilon pr \<Longrightarrow>
     Vec3_normalize pr n = Some \<lparr>Vec3_x = 0, Vec3_y = 0, Vec3_z = 0\<rparr>"
  by (simp add: Vec3_normalize_def)

text \<open>
  C10. When the normal handed to \<^verbatim>\<open>reflect\<close> is shorter than \<^verbatim>\<open>Epsilon\<close>, its
  normalisation inside \<^verbatim>\<open>reflect\<close> is the zero vector, the term \<open>2 * (v . n) * n\<close>
  is zero, and \<^verbatim>\<open>reflect\<close> returns the vector it was called on (\<^verbatim>\<open>Vec2\<close> and \<^verbatim>\<open>Vec3\<close>).
\<close>

theorem reflect_near_zero_normal:
  "(Vec2_length n < Epsilon pr \<longrightarrow>
      Vec2_normalize pr n = Some \<lparr>Vec2_x = 0, Vec2_y = 0\<rparr> \<and> Vec2_reflect pr v n = Some v)
   \<and> (Vec3_length m < Epsilon pr \<longrightarrow>
      Vec3_normalize pr m = Some \<lparr>Vec3_x = 0, Vec3_y = 0, Vec3_z = 0\<rparr>
      \<and> Vec3_reflect pr w m = Some w)"
proof (intro conjI impI)
  assume short: "Vec2_length n < Epsilon pr"
  then show zero: "Vec2_normalize pr n = Some \<lparr>Vec2_x = 0, Vec2_y = 0\<rparr>"
    by (rule Vec2_normalize_below)
  have "real_mul_Vec2 (2 * Vec2_dot v \<lparr>Vec2_x = 0, Vec2_y = 0\<rparr>) \<lparr>Vec2_x = 0, Vec2_y = 0\<rparr>
          = \<lparr>Vec2_x = 0, Vec2_y = 0\<rparr>"
    by (simp add: real_mul_Vec2_def Vec2_mul_def)
  then show "Vec2_reflect pr v n = Some v"
    by (simp add: Vec2_reflect_def zero Vec2_sub_def)
next
  assume short: "Vec3_length m < Epsilon pr"
  then show zero: "Vec3_normalize pr m = Some \<lparr>Vec3_x = 0, Vec3_y = 0, Vec3_z = 0\<rparr>"
    by (rule Vec3_normalize_below)
  have "real_mul_Vec3 (2 * Vec3_dot w \<lparr>Vec3_x = 0, Vec3_y = 0, Vec3_z = 0\<rparr>)
          \<lparr>Vec3_x = 0, Vec3_y = 0, Vec3_z = 0\<rparr> = \<lparr>Vec3_x = 0, Vec3_y = 0, Vec3_z = 0\<rparr>"
    by (simp add: real_mul_Vec3_def Vec3_mul_def)
  then show "Vec3_reflect pr w m = Some w"
    by (simp add: Vec3_reflect_def zero Vec3_sub_def)
qed

theorem reflect_near_zero_normal_witness:
  "Vec2_length \<lparr>Vec2_x = 0, Vec2_y = 1 / 10 ^ 7\<rparr> < Epsilon SinglePrecision
   \<and> Vec2_reflect SinglePrecision \<lparr>Vec2_x = 1, Vec2_y = - 1\<rparr> \<lparr>Vec2_x = 0, Vec2_y = 1 / 10 ^ 7\<rparr>
       = Some \<lparr>Vec2_x = 1, Vec2_y = - 1\<rparr>
   \<and> Vec3_length \<lparr>Vec3_x = 0, Vec3_y = 0, Vec3_z = 1 / 10 ^ 7\<rparr> < Epsilon SinglePrecision
   \<and> Vec3_reflect SinglePrecision \<lparr>Vec3_x = 1, Vec3_y = 2, Vec3_z = 3\<rparr>
       \<lparr>Vec3_x = 0, Vec3_y = 0, Vec3_z = 1 / 10 ^ 7\<rparr>
       = Some \<lparr>Vec3_x = 1, Vec3_y = 2, Vec3_z = 3\<rparr>"
  using reflect_near_zero_normal
          [of "\<lparr>Vec2_x = 0, Vec2_y = 1 / 10 ^ 7\<rparr>" SinglePrecision
              "\<lparr>Vec2_x = 1, Vec2_y = - 1\<rparr>"
              "\<lparr>Vec3_x = 0, Vec3_y = 0, Vec3_z = 1 / 10 ^ 7\<rparr>"
              "\<lparr>Vec3_x = 1, Vec3_y = 2, Vec3_z = 3\<rparr>"]
  by (simp add: Vec2_length_axis Vec3_length_axis Epsilon_def)

section \<open>Projection\<close>

text \<open>
  \<^verbatim>\<open>Vec2::project\<close> of \<^verbatim>\<open>include/OxygenMathLite.h\<close> (and of the copy with \<^verbatim>\<open>Vec3\<close>,
  whose body is the same with an early return for the conditional): the zero vector
  when the squared length of \<open>onto\<close> is below \<^verbatim>\<open>Epsilon\<close>, and \<open>((v . onto) / (onto . onto)) * onto\<close>
  otherwise; the guard keeps zero away from the divisor.
\<close>

lemma Vec2_project_header:
  "Vec2_project pr v onto =
     Some (if Vec2_lengthSquared onto < Epsilon pr then \<lparr>Vec2_x = 0, Vec2_y = 0\<rparr>
           else real_mul_Vec2 (Vec2_dot v onto / Vec2_dot onto onto) onto)"
proof (cases "Vec2_lengthSquared onto < Epsilon pr")
  case True
  then show ?thesis
    by (simp add: Vec2_project_def)
next
  case False
  then have "Vec2_lengthSquared onto \<noteq> 0"
    by (rule not_below_Epsilon_nonzero)
  moreover have "Vec2_dot onto onto = Vec2_lengthSquared onto"
    by (simp add: Vec2_dot_def Vec2_lengthSquared_def)
  ultimately show ?thesis
    using False by (simp add: Vec2_project_def fdiv_Some)
qed

text \<open>
  C2. The specification gives \<open>v.project(onto)\<close> as the zero vector when \<open>onto.lengthSquared()\<close>
  is below \<^verbatim>\<open>Epsilon\<close> and as \<open>((v . onto) / (onto . onto)) * onto\<close> otherwise. The
  \<^verbatim>\<open>Vec2\<close>-only copy of the header does not compute that: its \<^verbatim>\<open>project\<close> never reads
  the vector it is called on, tests the length of \<open>onto\<close> rather than its square, and
  returns \<open>onto\<close> divided by its length. For \<open>v = (3, 4)\<close> and \<open>onto = (1, 0)\<close> it returns
  \<open>(1, 0)\<close>, where the formula (and \<^verbatim>\<open>include/OxygenMathLite.h\<close>) gives \<open>(3, 0)\<close>; for
  \<open>onto = (0, 1/2000)\<close>, whose squared length is below \<^verbatim>\<open>Epsilon\<close>, it returns \<open>(0, 1)\<close>
  and not the zero vector.
\<close>

theorem Vec2_project_part_001_receiver_unused:
  "Vec2_project_part_001 \<lparr>Vec2_x = 3, Vec2_y = 4\<rparr> \<lparr>Vec2_x = 1, Vec2_y = 0\<rparr>
     = Some \<lparr>Vec2_x = 1, Vec2_y = 0\<rparr>
   \<and> \<not> Vec2_lengthSquared \<lparr>Vec2_x = 1, Vec2_y = 0\<rparr> < Epsilon_part_001
   \<and> real_mul_Vec2 (Vec2_dot \<lparr>Vec2_x = 3, Vec2_y = 4\<rparr> \<lparr>Vec2_x = 1, Vec2_y = 0\<rparr>
                      / Vec2_dot \<lparr>Vec2_x = 1, Vec2_y = 0\<rparr> \<lparr>Vec2_x = 1, Vec2_y = 0\<rparr>)
         \<lparr>Vec2_x = 1, Vec2_y = 0\<rparr> = \<lparr>Vec2_x = 3, Vec2_y = 0\<rparr>
   \<and> Vec2_project SinglePrecision \<lparr>Vec2_x = 3, Vec2_y = 4\<rparr> \<lparr>Vec2_x = 1, Vec2_y = 0\<rparr>
     = Some \<lparr>Vec2_x = 3, Vec2_y = 0\<rparr>
   \<and> Vec2_lengthSquared \<lparr>Vec2_x = 0, Vec2_y = 1 / 2000\<rparr> < Epsilon_part_001
   \<and> Vec2_project_part_001 \<lparr>Vec2_x = 3, Vec2_y = 4\<rparr> \<lparr>Vec2_x = 0, Vec2_y = 1 / 2000\<rparr>
     = Some \<lparr>Vec2_x = 0, Vec2_y = 1\<rparr>"
  by (simp add: Vec2_project_part_001_def Vec2_project_def Vec2_length_axis
      Vec2_length_x_axis Vec2_lengthSquared_def Vec2_dot_def real_mul_Vec2_def Vec2_mul_def
      Epsilon_part_001_def Epsilon_def fdiv_def Let_def)

section \<open>Predicates and comparison\<close>

text \<open>
  \<^verbatim>\<open>isUnit\<close> and \<^verbatim>\<open>isZero\<close> of \<^verbatim>\<open>include/OxygenMathLite.h\<close> (and of the copy with
  \<^verbatim>\<open>Vec3\<close>): \<^verbatim>\<open>isUnit\<close> compares \<open>|lengthSquared - 1|\<close> with \<^verbatim>\<open>Epsilon\<close>, \<^verbatim>\<open>isZero\<close>
  compares every component with \<open>0\<close>. A vector of length \<open>Epsilon / 2\<close> is not zero for
  \<^verbatim>\<open>isZero\<close>, and two different vectors on the \<open>y\<close> axis are both unit for \<^verbatim>\<open>isUnit\<close>.
\<close>

lemma isUnit_isZero_header:
  "Vec2_isUnit pr v = (\<bar>Vec2_lengthSquared v - 1\<bar> < Epsilon pr)
   \<and> Vec2_isZero v = (v = \<lparr>Vec2_x = 0, Vec2_y = 0\<rparr>)
   \<and> Vec3_isUnit pr w = (\<bar>Vec3_lengthSquared w - 1\<bar> < Epsilon pr)
   \<and> Vec3_isZero w = (w = \<lparr>Vec3_x = 0, Vec3_y = 0, Vec3_z = 0\<rparr>)"
  by (auto simp add: Vec2_isUnit_def Vec2_isZero_def Vec3_isUnit_def Vec3_isZero_def)

lemma isZero_exact_isUnit_tolerant:
  "\<not> Vec2_isZero \<lparr>Vec2_x = 0, Vec2_y = Epsilon pr / 2\<rparr>
   \<and> Vec2_isUnit SinglePrecision \<lparr>Vec2_x = 0, Vec2_y = 1\<rparr>
   \<and> Vec2_isUnit SinglePrecision \<lparr>Vec2_x = 0, Vec2_y = 1 + 1 / 10 ^ 7\<rparr>"
  using Epsilon_pos [of pr]
  by (simp add: Vec2_isZero_def Vec2_isUnit_def Vec2_lengthSquared_def Epsilon_def)

text \<open>
  C5. The specification gives \<open>v.isUnit()\<close> as true exactly when \<open>|v.lengthSquared() - 1|\<close> is
  below \<^verbatim>\<open>Epsilon\<close>. The \<^verbatim>\<open>Vec2\<close>-only copy of the header compares \<open>lengthSquared() - 1\<close>
  itself, with no absolute value: every vector shorter than a unit vector passes. For
  the zero vector its \<^verbatim>\<open>isUnit\<close> is true, while \<open>|0 - 1| = 1\<close> is not below \<^verbatim>\<open>Epsilon\<close>
  and \<^verbatim>\<open>isUnit\<close> of \<^verbatim>\<open>include/OxygenMathLite.h\<close> is false.
\<close>

theorem Vec2_isUnit_part_001_zero_vector:
  "Vec2_isUnit_part_001 \<lparr>Vec2_x = 0, Vec2_y = 0\<rparr>
   \<and> \<not> \<bar>Vec2_lengthSquared \<lparr>Vec2_x = 0, Vec2_y = 0\<rparr> - 1\<bar> < Epsilon_part_001
   \<and> \<not> Vec2_isUnit SinglePrecision \<lparr>Vec2_x = 0, Vec2_y = 0\<rparr>"
  by (simp add: Vec2_isUnit_part_001_def Vec2_isUnit_def Vec2_lengthSquared_def
      Epsilon_part_001_def Epsilon_def)

text \<open>
  C7. \<^verbatim>\<open>operator==\<close> of \<^verbatim>\<open>Vec2\<close> (in the copies of the header that have it) and of
  \<^verbatim>\<open>Vec3\<close> is true exactly when every pair of components is equal, that is when the two
  vectors are the same value; there is no tolerance, a vector moved by \<open>Epsilon / 2\<close>
  along one axis is already unequal. \<^verbatim>\<open>operator!=\<close> is the negation.
\<close>

theorem operator_eq_exact:
  "Vec2_eq a b = (Vec2_x a = Vec2_x b \<and> Vec2_y a = Vec2_y b)
   \<and> Vec2_eq a b = (a = b)
   \<and> Vec2_neq a b = (\<not> Vec2_eq a b)
   \<and> \<not> Vec2_eq a (a\<lparr>Vec2_x := Vec2_x a + Epsilon pr / 2\<rparr>)
   \<and> Vec3_eq c d = (Vec3_x c = Vec3_x d \<and> Vec3_y c = Vec3_y d \<and> Vec3_z c = Vec3_z d)
   \<and> Vec3_eq c d = (c = d)
   \<and> Vec3_neq c d = (\<not> Vec3_eq c d)
   \<and> \<not> Vec3_eq c (c\<lparr>Vec3_z := Vec3_z c + Epsilon pr / 2\<rparr>)"
  using Epsilon_pos [of pr]
  by (auto simp add: Vec2_eq_def Vec2_neq_def Vec3_eq_def Vec3_neq_def)

section \<open>Rotation\<close>

text \<open>
  The angle a caller can pass is a scalar near \<open>pi / 2\<close>, not \<open>pi / 2\<close> itself. The quarter
  turn of \<open>(1, 0)\<close> is as close to \<open>(0, 1)\<close> as the angle is to \<open>pi / 2\<close>.
\<close>

lemma one_minus_cos_le: "\<bar>cos u - 1\<bar> \<le> \<bar>u\<bar>" for u :: real
proof -
  have "cos u = 1 - 2 * (sin (u / 2))\<^sup>2"
    using cos_double_sin [of "u / 2"] by simp
  then have "\<bar>cos u - 1\<bar> = 2 * (\<bar>sin (u / 2)\<bar> * \<bar>sin (u / 2)\<bar>)"
    by (simp add: power2_eq_square abs_mult)
  also have "\<dots> \<le> 2 * (\<bar>sin (u / 2)\<bar> * 1)"
    by (intro mult_left_mono) auto
  also have "\<dots> \<le> 2 * \<bar>u / 2\<bar>"
    using abs_sin_x_le_abs_x [of "u / 2"] by simp
  finally show ?thesis
    by simp
qed

lemma Rotation_quarter_turn_tolerance:
  assumes "\<bar>rads - pi / 2\<bar> < d"
  shows "\<bar>Vec2_x (Mat2_mul_Vec2 (Rotation rads) \<lparr>Vec2_x = 1, Vec2_y = 0\<rparr>) - 0\<bar> < d"
    and "\<bar>Vec2_y (Mat2_mul_Vec2 (Rotation rads) \<lparr>Vec2_x = 1, Vec2_y = 0\<rparr>) - 1\<bar> < d"
proof -
  let ?u = "pi / 2 - rads"
  have u: "\<bar>?u\<bar> < d"
    using assms by (simp add: abs_minus_commute)
  have "\<bar>cos rads\<bar> = \<bar>sin ?u\<bar>"
    by (simp add: cos_sin_eq [of rads])
  also have "\<dots> \<le> \<bar>?u\<bar>"
    by (rule abs_sin_x_le_abs_x)
  finally show "\<bar>Vec2_x (Mat2_mul_Vec2 (Rotation rads) \<lparr>Vec2_x = 1, Vec2_y = 0\<rparr>) - 0\<bar> < d"
    using u by (simp add: Rotation_def Mat2_mul_Vec2_def Let_def)
  have "\<bar>sin rads - 1\<bar> = \<bar>cos ?u - 1\<bar>"
    by (simp add: sin_cos_eq [of rads])
  also have "\<dots> \<le> \<bar>?u\<bar>"
    by (rule one_minus_cos_le)
  finally show "\<bar>Vec2_y (Mat2_mul_Vec2 (Rotation rads) \<lparr>Vec2_x = 1, Vec2_y = 0\<rparr>) - 1\<bar> < d"
    using u by (simp add: Rotation_def Mat2_mul_Vec2_def Let_def)
qed

text \<open>
  C8. \<^verbatim>\<open>Mat2::Rotation\<close> returns the matrix with rows \<open>[cos r, - sin r]\<close> and
  \<open>[sin r, cos r]\<close>. Applied to \<open>(1, 0)\<close>, the rotation by \<open>pi / 2\<close> gives \<open>(0, 1)\<close>, which
  is within \<^verbatim>\<open>Epsilon\<close> of \<open>(0, 1)\<close> in each coordinate.
\<close>

theorem Rotation_matrix:
  "Rotation rads = \<lparr>m00 = cos rads, m01 = - sin rads, m10 = sin rads, m11 = cos rads\<rparr>
   \<and> Mat2_mul_Vec2 (Rotation (pi / 2)) \<lparr>Vec2_x = 1, Vec2_y = 0\<rparr> = \<lparr>Vec2_x = 0, Vec2_y = 1\<rparr>
   \<and> \<bar>Vec2_x (Mat2_mul_Vec2 (Rotation (pi / 2)) \<lparr>Vec2_x = 1, Vec2_y = 0\<rparr>) - 0\<bar> < Epsilon pr
   \<and> \<bar>Vec2_y (Mat2_mul_Vec2 (Rotation (pi / 2)) \<lparr>Vec2_x = 1, Vec2_y = 0\<rparr>) - 1\<bar> < Epsilon pr"
proof -
  have matrix: "Rotation rads
      = \<lparr>m00 = cos rads, m01 = - sin rads, m10 = sin rads, m11 = cos rads\<rparr>" for rads
    by (simp add: Rotation_def Let_def)
  have quarter: "Mat2_mul_Vec2 (Rotation (pi / 2)) \<lparr>Vec2_x = 1, Vec2_y = 0\<rparr>
      = \<lparr>Vec2_x = 0, Vec2_y = 1\<rparr>"
    by (simp add: matrix Mat2_mul_Vec2_def)
  show ?thesis
    by (simp add: matrix [of rads] quarter Epsilon_pos)
qed

text \<open>
  C9. The product of the rotation matrix with a vector is the vector's own \<^verbatim>\<open>rotate\<close>:
  \<open>Rotation(r) * v = v.rotate(r)\<close> for every \<open>v\<close> and \<open>r\<close>, as values and under the
  component-wise \<^verbatim>\<open>operator==\<close> of \<^verbatim>\<open>Vec2\<close>.
\<close>

theorem Rotation_mul_eq_rotate:
  "Mat2_mul_Vec2 (Rotation rads) v = Vec2_rotate v rads
   \<and> Vec2_eq (Mat2_mul_Vec2 (Rotation rads) v) (Vec2_rotate v rads)"
proof -
  have "Vec2_x (Mat2_mul_Vec2 (Rotation rads) v) = Vec2_x v * cos rads - Vec2_y v * sin rads"
    by (simp add: Rotation_def Mat2_mul_Vec2_def Let_def mult.commute)
  moreover
  have "Vec2_y (Mat2_mul_Vec2 (Rotation rads) v) = Vec2_x v * sin rads + Vec2_y v * cos rads"
    by (simp add: Rotation_def Mat2_mul_Vec2_def Let_def mult.commute)
  ultimately show ?thesis
    by (simp add: Vec2_eq_def Vec2_rotate_def Mat2_mul_Vec2_def)
qed

section \<open>Closest point on a segment\<close>




end
